theory Spec2Isabelle
  imports Complex_Main
begin

section \<open>Python string and container operations used by the runner\<close>

text \<open>
  The extension runner (\<^verbatim>\<open>ulauncher/modes/extensions/ExtensionRunner.py\<close>) uses a
  handful of Python built-ins on strings and on a bounded deque. Each is written out here
  as an executable function, with the failure of an out-of-range index as a value.
\<close>

text \<open>\<^verbatim>\<open>s.startswith(p)\<close>.\<close>

fun startswith :: "string \<Rightarrow> string \<Rightarrow> bool" where
  "startswith s [] = True"
| "startswith [] (p # ps) = False"
| "startswith (c # cs) (p # ps) = (c = p \<and> startswith cs ps)"

text \<open>\<^verbatim>\<open>needle in hay\<close> on strings: \<open>needle\<close> occurs as a contiguous run of \<open>hay\<close>.\<close>

fun str_contains :: "string \<Rightarrow> string \<Rightarrow> bool" where
  "str_contains needle [] = (needle = [])"
| "str_contains needle (c # cs) = (startswith (c # cs) needle \<or> str_contains needle cs)"

text \<open>
  \<^verbatim>\<open>s.split(sep)\<close> for a separator of one character (the source splits at the single
  quote only). The result is never empty: a string without the separator gives the
  one-element list holding the string itself.
\<close>

fun split_on :: "char \<Rightarrow> string \<Rightarrow> string list" where
  "split_on sep [] = [[]]"
| "split_on sep (c # cs) =
     (if c = sep then [] # split_on sep cs
      else (case split_on sep cs of
              w # ws \<Rightarrow> (c # w) # ws
            | [] \<Rightarrow> [[c]]))"

text \<open>\<^verbatim>\<open>sep.join(xs)\<close>.\<close>

fun join :: "string \<Rightarrow> string list \<Rightarrow> string" where
  "join sep [] = []"
| "join sep [x] = x"
| "join sep (x # y # ys) = x @ sep @ join sep (y # ys)"

text \<open>
  \<^verbatim>\<open>deque(maxlen=n).append(x)\<close>: the new item goes to the right end and items fall off
  the left end until at most \<open>n\<close> are left.
\<close>

definition deque_append :: "nat \<Rightarrow> 'a list \<Rightarrow> 'a \<Rightarrow> 'a list" where
  "deque_append maxlen xs x = (let ys = xs @ [x] in drop (length ys - maxlen) ys)"

text \<open>\<^verbatim>\<open>str(i)\<close> of an integer, as the f-strings of the source format exit codes and signals.\<close>

definition digit_chr :: "nat \<Rightarrow> char" where
  "digit_chr d = ''0123456789'' ! d"

fun digits_of :: "nat \<Rightarrow> string" where
  "digits_of n = (if n < 10 then [digit_chr n] else digits_of (n div 10) @ [digit_chr (n mod 10)])"

declare digits_of.simps [simp del]

definition str_int :: "int \<Rightarrow> string" where
  "str_int i = (if i < 0 then CHR ''-'' # digits_of (nat (- i)) else digits_of (nat i))"

datatype exn = AssertionError string | IndexError

text \<open>\<^verbatim>\<open>xs[1]\<close>: the second element, or \<^verbatim>\<open>IndexError\<close> when the list has fewer than two.\<close>

definition index1 :: "'a list \<Rightarrow> exn + 'a" where
  "index1 xs = (if 1 < length xs then Inr (xs ! 1) else Inl IndexError)"

definition squote :: char where
  "squote = CHR 0x27"

definition dquote :: char where
  "dquote = CHR 0x22"

definition newline :: char where
  "newline = CHR 0x0A"

definition SIGTERM :: int where
  "SIGTERM = 15"

definition SIGKILL :: int where
  "SIGKILL = 9"

section \<open>Data model\<close>

text \<open>
  Objects of the GLib runtime (\<^verbatim>\<open>Gio.Subprocess\<close>, \<^verbatim>\<open>Gio.DataInputStream\<close>) are
  known to the runner by their identity only; a \<open>handle\<close> stands for \<^verbatim>\<open>id(obj)\<close>.
  Clock readings of \<^verbatim>\<open>time()\<close> are real numbers; the rounding of floating-point
  subtraction is not part of the model.
\<close>

type_synonym handle = nat

record ExtensionProc =
  ext_id :: string
  subprocess :: handle
  start_time :: real
  error_stream :: handle
  recent_errors :: "string list"

text \<open>The two fields of an extension's database record that the runner writes.\<close>

record ExtensionRecord =
  error_type :: string
  error_message :: string

text \<open>
  The state of the runner and of everything it acts on. \<open>extension_procs\<close> is the
  dictionary of the same name. \<open>db_records\<close> and \<open>db_file\<close> are the two layers of
  \<^verbatim>\<open>ext_db\<close>: the records in memory and what the last \<^verbatim>\<open>save()\<close> wrote. The remaining
  fields log, in order, the effects the runner has on the outside: processes spawned,
  exit callbacks registered with \<^verbatim>\<open>wait_async\<close>, line reads issued with
  \<^verbatim>\<open>read_line_async\<close>, signals sent, timers set and lines printed.
\<close>

record runner =
  extension_procs :: "string \<rightharpoonup> ExtensionProc"
  db_records :: "string \<rightharpoonup> ExtensionRecord"
  db_file :: "string \<rightharpoonup> ExtensionRecord"
  spawned :: "(handle \<times> string list) list"
  exit_waits :: "(handle \<times> string) list"
  stderr_reads :: "(handle \<times> string) list"
  signals_sent :: "(handle \<times> int) list"
  timers :: "(real \<times> ExtensionProc) list"
  printed :: "string list"

text \<open>
  \<^verbatim>\<open>ExtensionRunner.__init__\<close> together with the module-level
  \<^verbatim>\<open>ext_db = ExtensionDb.load()\<close>: no process is registered and the records in memory
  are the ones read from the file.
\<close>

definition init :: "(string \<rightharpoonup> ExtensionRecord) \<Rightarrow> runner" where
  "init db = \<lparr>extension_procs = Map.empty, db_records = db, db_file = db, spawned = [],
     exit_waits = [], stderr_reads = [], signals_sent = [], timers = [], printed = []\<rparr>"

subsection \<open>The extension database\<close>

text \<open>
  Modelled from the spec: \<^verbatim>\<open>ExtensionDb\<close> is imported by the runner but is not among
  the sources. The spec gives its contract: \<^verbatim>\<open>getRecord(extensionId)\<close> returns the
  record of the extension and creates an empty one if absent; \<^verbatim>\<open>save()\<close> persists all
  in-memory records to durable storage synchronously. \<^verbatim>\<open>update(...)\<close> on a record
  sets the named fields of the record in memory.
\<close>

definition empty_record :: ExtensionRecord where
  "empty_record = \<lparr>error_type = [], error_message = []\<rparr>"

definition get_record :: "runner \<Rightarrow> string \<Rightarrow> ExtensionRecord" where
  "get_record s eid = (case db_records s eid of None \<Rightarrow> empty_record | Some r \<Rightarrow> r)"

definition record_update :: "runner \<Rightarrow> string \<Rightarrow> string \<Rightarrow> string \<Rightarrow> runner" where
  "record_update s eid message etype =
     s\<lparr>db_records := (db_records s)(eid \<mapsto>
          (get_record s eid)\<lparr>error_message := message, error_type := etype\<rparr>)\<rparr>"

definition db_save :: "runner \<Rightarrow> runner" where
  "db_save s = s\<lparr>db_file := db_records s\<rparr>"

subsection \<open>The manifest\<close>

text \<open>
  \<^verbatim>\<open>ExtensionManifest\<close> is imported as well. The runner calls \<^verbatim>\<open>validate()\<close> and
  \<^verbatim>\<open>check_compatibility(verbose=True)\<close> on the loaded manifest inside one
  \<^verbatim>\<open>try\<close> block and handles the two exception classes named in the import. A
  manifest is therefore given by what each of the two calls raises, if anything; the
  exception carries its \<^verbatim>\<open>str(err)\<close>.
\<close>

datatype manifest_exn = ExtensionManifestError string | ExtensionIncompatibleWarning string

record ExtensionManifest =
  validate :: "manifest_exn option"
  check_compatibility :: "manifest_exn option"

text \<open>The body of the \<^verbatim>\<open>try\<close> block: the first call that raises ends it.\<close>

definition validate_and_check :: "ExtensionManifest \<Rightarrow> manifest_exn option" where
  "validate_and_check m = (case validate m of Some e \<Rightarrow> Some e | None \<Rightarrow> check_compatibility m)"

text \<open>
  What one call of \<^verbatim>\<open>run\<close> reads from its surroundings: the manifest that
  \<^verbatim>\<open>ExtensionManifest.load(ext_path)\<close> returns, \<^verbatim>\<open>sys.executable\<close>, the clock, the
  subprocess object that \<^verbatim>\<open>launcher.spawnv(cmd)\<close> returns and the result of its
  \<^verbatim>\<open>get_stderr_pipe()\<close> (\<open>None\<close> when there is no pipe).
\<close>

record run_env =
  load :: ExtensionManifest
  sys_executable :: string
  time_now :: real
  spawnv :: handle
  get_stderr_pipe :: "handle option"

text \<open>
  The \<^verbatim>\<open>Gio.Subprocess\<close> that the exit callback receives: its identity and what its
  query methods answer at that moment.
\<close>

record Subprocess =
  obj_id :: handle
  get_if_signaled :: bool
  get_term_sig :: int
  get_exit_status :: int

section \<open>The runner\<close>

text \<open>
  Calls to the logger have no effect on the state kept here and are left out. The
  composition of the child's environment variables (lines 73 to 85 of the source) reads
  the manifest's triggers and preferences, raises nothing and writes nothing to the
  runner; the spawn is logged with its command line.
\<close>

definition is_running :: "runner \<Rightarrow> string \<Rightarrow> bool" where
  "is_running s eid = (eid \<in> dom (extension_procs s))"

definition set_extension_error :: "runner \<Rightarrow> string \<Rightarrow> string \<Rightarrow> string \<Rightarrow> runner" where
  "set_extension_error s eid etype message = db_save (record_update s eid message etype)"

text \<open>\<^verbatim>\<open>self.extension_procs.pop(ext_id, None)\<close>.\<close>

definition pop_proc :: "runner \<Rightarrow> string \<Rightarrow> runner" where
  "pop_proc s eid = s\<lparr>extension_procs := (extension_procs s)(eid := None)\<rparr>"

definition read_stderr_line :: "runner \<Rightarrow> ExtensionProc \<Rightarrow> runner" where
  "read_stderr_line s proc = s\<lparr>stderr_reads := stderr_reads s @ [(error_stream proc, ext_id proc)]\<rparr>"

definition send_signal :: "runner \<Rightarrow> handle \<Rightarrow> int \<Rightarrow> runner" where
  "send_signal s h sig = s\<lparr>signals_sent := signals_sent s @ [(h, sig)]\<rparr>"

definition stderr_pipe_msg :: string where
  "stderr_pipe_msg = ''Subprocess must be created with Gio.SubprocessFlags.STDERR_PIPE''"

text \<open>
  \<^verbatim>\<open>run(ext_id, ext_path)\<close>. The result pairs the exception that leaves the call, if
  any, with the state the call leaves behind.
\<close>

definition run :: "runner \<Rightarrow> string \<Rightarrow> string \<Rightarrow> run_env \<Rightarrow> exn option \<times> runner" where
  "run s eid ext_path env =
     (if \<not> is_running s eid then
        let s1 = record_update s eid [] [];
            manifest = load env
        in (case validate_and_check manifest of
              Some (ExtensionManifestError err) \<Rightarrow>
                (None, set_extension_error s1 eid ''Invalid'' err)
            | Some (ExtensionIncompatibleWarning err) \<Rightarrow>
                (None, set_extension_error s1 eid ''Incompatible'' err)
            | None \<Rightarrow>
                let cmd = [sys_executable env, ext_path @ ''/main.py''];
                    t_start = time_now env;
                    subproc = spawnv env;
                    s2 = s1\<lparr>spawned := spawned s1 @ [(subproc, cmd)]\<rparr>
                in (case get_stderr_pipe env of
                      None \<Rightarrow> (Some (AssertionError stderr_pipe_msg), s2)
                    | Some error_input_stream \<Rightarrow>
                        let proc = \<lparr>ext_id = eid, subprocess = subproc, start_time = t_start,
                                     error_stream = error_input_stream, recent_errors = []\<rparr>;
                            s3 = s2\<lparr>extension_procs := (extension_procs s2)(eid \<mapsto> proc)\<rparr>;
                            s4 = s3\<lparr>exit_waits := exit_waits s3 @ [(subproc, eid)]\<rparr>
                        in (None, read_stderr_line s4 proc)))
      else (None, s))"

text \<open>
  \<^verbatim>\<open>handle_stderr\<close>, the completion callback of a line read. \<open>output\<close> is the first
  component of \<^verbatim>\<open>read_line_finish_utf8(result)\<close>: \<open>None\<close> at the end of the stream.
  \<^verbatim>\<open>if output:\<close> holds for a line that is not empty.
\<close>

definition truthy :: "string option \<Rightarrow> bool" where
  "truthy output = (case output of None \<Rightarrow> False | Some line \<Rightarrow> line \<noteq> [])"

definition handle_stderr :: "runner \<Rightarrow> string option \<Rightarrow> string \<Rightarrow> runner" where
  "handle_stderr s output eid =
     (let s1 = (case output of
                  Some line \<Rightarrow> if truthy output then s\<lparr>printed := printed s @ [line]\<rparr> else s
                | None \<Rightarrow> s)
      in (case extension_procs s1 eid of
            None \<Rightarrow> s1
          | Some proc \<Rightarrow>
              let proc' = (case output of
                             Some line \<Rightarrow>
                               if truthy output
                               then proc\<lparr>recent_errors := deque_append 1 (recent_errors proc) line\<rparr>
                               else proc
                           | None \<Rightarrow> proc);
                  s2 = s1\<lparr>extension_procs := (extension_procs s1)(eid \<mapsto> proc')\<rparr>
              in read_stderr_line s2 proc'))"

text \<open>The three messages that \<^verbatim>\<open>handle_exit\<close> formats.\<close>

definition terminated_msg :: "string \<Rightarrow> int \<Rightarrow> string" where
  "terminated_msg eid kill_signal =
     ''Extension '' @ [dquote] @ eid @ [dquote] @ '' was terminated with signal '' @ str_int kill_signal"

definition instantly_msg :: "string \<Rightarrow> int \<Rightarrow> string" where
  "instantly_msg eid code =
     ''Extension '' @ [dquote] @ eid @ [dquote] @ '' exited instantly with code '' @ str_int code"

definition exited_msg :: "(real \<Rightarrow> string) \<Rightarrow> string \<Rightarrow> int \<Rightarrow> real \<Rightarrow> string" where
  "exited_msg fmt eid code uptime_seconds =
     ''Extension '' @ [dquote] @ eid @ [dquote] @ '' exited with code '' @ str_int code
       @ '' after '' @ fmt uptime_seconds @ '' seconds.''"

text \<open>
  \<^verbatim>\<open>handle_exit(subprocess, _result, ext_id)\<close>, the completion callback of
  \<^verbatim>\<open>wait_async\<close>. \<open>now\<close> is the reading of \<^verbatim>\<open>time()\<close> in the callback and \<open>fmt\<close> is
  the text Python gives a float inside an f-string, which the model takes as given.
\<close>

definition handle_exit ::
    "(real \<Rightarrow> string) \<Rightarrow> runner \<Rightarrow> Subprocess \<Rightarrow> real \<Rightarrow> string \<Rightarrow> exn option \<times> runner" where
  "handle_exit fmt s sub now eid =
     (if get_if_signaled sub \<and> extension_procs s eid \<noteq> None then
        let kill_signal = get_term_sig sub;
            error_msg = terminated_msg eid kill_signal
        in (None, pop_proc (set_extension_error s eid ''Terminated'' error_msg) eid)
      else
        (case extension_procs s eid of
           None \<Rightarrow> (None, s)
         | Some proc \<Rightarrow>
             if subprocess proc \<noteq> obj_id sub then (None, s)
             else
               let uptime_seconds = now - start_time proc;
                   code = get_exit_status sub
               in if uptime_seconds < 1 then
                    let default_error_msg = instantly_msg eid code;
                        lasterr = join [newline] (recent_errors proc)
                    in if str_contains ''ModuleNotFoundError'' lasterr then
                         (case index1 (split_on squote lasterr) of
                            Inl e \<Rightarrow> (Some e, s)
                          | Inr package_name \<Rightarrow>
                              let s1 = (if package_name = ''ulauncher''
                                        then set_extension_error s eid ''Incompatible'' default_error_msg
                                        else if package_name \<noteq> []
                                        then set_extension_error s eid ''MissingModule'' package_name
                                        else s)
                              in (None, pop_proc s1 eid))
                       else (None, pop_proc (set_extension_error s eid ''Terminated'' default_error_msg) eid)
                  else
                    let error_msg = exited_msg fmt eid code uptime_seconds
                    in (None, pop_proc (set_extension_error s eid ''Exited'' error_msg) eid)))"

text \<open>
  Modelled from the spec: \<^verbatim>\<open>ulauncher.utils.timer.timer\<close> is imported by the runner but
  is not among the sources. The spec describes what \<^verbatim>\<open>stop\<close> does with it as
  scheduling a one-shot delayed check with a fixed delay: the callback is kept with its
  delay until the timer fires, and it fires once.
\<close>

definition timer :: "runner \<Rightarrow> real \<Rightarrow> ExtensionProc \<Rightarrow> runner" where
  "timer s delay proc = s\<lparr>timers := timers s @ [(delay, proc)]\<rparr>"

text \<open>\<^verbatim>\<open>stop(ext_id)\<close>.\<close>

definition stop :: "runner \<Rightarrow> string \<Rightarrow> runner" where
  "stop s eid =
     (if is_running s eid then
        (case extension_procs s eid of
           Some proc \<Rightarrow>
             let s1 = pop_proc s eid;
                 s2 = send_signal s1 (subprocess proc) SIGTERM
             in timer s2 (1 / 2) proc
         | None \<Rightarrow> s)
      else s)"

text \<open>
  \<^verbatim>\<open>confirm_termination(proc)\<close>. \<open>identifier\<close> is what
  \<^verbatim>\<open>proc.subprocess.get_identifier()\<close> answers when the check runs: the process id as
  a string while the process lives, \<open>None\<close> once it has terminated.
\<close>

definition confirm_termination :: "runner \<Rightarrow> ExtensionProc \<Rightarrow> string option \<Rightarrow> runner" where
  "confirm_termination s proc identifier =
     (if truthy identifier then send_signal s (subprocess proc) SIGKILL else s)"

text \<open>
  Modelled from the spec: the firing of a timer set with
  \<^verbatim>\<open>ulauncher.utils.timer.timer\<close>, one-shot as the spec has it. The timer at position
  \<open>i\<close> of the pending ones leaves the list and its callback runs.
\<close>

definition timer_fires :: "runner \<Rightarrow> nat \<Rightarrow> string option \<Rightarrow> runner" where
  "timer_fires s i identifier =
     (if i < length (timers s)
      then confirm_termination (s\<lparr>timers := take i (timers s) @ drop (Suc i) (timers s)\<rparr>)
             (snd (timers s ! i)) identifier
      else s)"

text \<open>
  A property of states, used to say what the runner keeps true of the records in
  memory: no running extension has an error type in its record in memory.
\<close>

definition memory_clean :: "runner \<Rightarrow> bool" where
  "memory_clean s = (\<forall>eid. is_running s eid \<longrightarrow> error_type (get_record s eid) = [])"

section \<open>Example runs\<close>

text \<open>
  Concrete manifests, surroundings and states on which the theorems below are
  instantiated.
\<close>

definition valid_manifest :: ExtensionManifest where
  "valid_manifest = \<lparr>validate = None, check_compatibility = None\<rparr>"

definition invalid_manifest :: ExtensionManifest where
  "invalid_manifest =
     \<lparr>validate = Some (ExtensionManifestError ''name is not provided''), check_compatibility = None\<rparr>"


definition spawn_env :: "ExtensionManifest \<Rightarrow> handle \<Rightarrow> real \<Rightarrow> handle option \<Rightarrow> run_env" where
  "spawn_env m h t pipe =
     \<lparr>load = m, sys_executable = ''/usr/bin/python3'', time_now = t, spawnv = h,
      get_stderr_pipe = pipe\<rparr>"

text \<open>Extension \<open>e\<close> started at time 0 from a fresh runner, as subprocess 1 with error stream 2.\<close>

definition started :: runner where
  "started = snd (run (init Map.empty) ''e'' ''/ext/e'' (spawn_env valid_manifest 1 0 (Some 2)))"

definition e_proc :: "string list \<Rightarrow> ExtensionProc" where
  "e_proc errs =
     \<lparr>ext_id = ''e'', subprocess = 1, start_time = 0, error_stream = 2, recent_errors = errs\<rparr>"

definition exit_event :: "handle \<Rightarrow> bool \<Rightarrow> int \<Rightarrow> int \<Rightarrow> Subprocess" where
  "exit_event h signaled sig code =
     \<lparr>obj_id = h, get_if_signaled = signaled, get_term_sig = sig, get_exit_status = code\<rparr>"



definition unquoted_line :: string where
  "unquoted_line = ''ModuleNotFoundError: No module named requests''"


text \<open>A first start of extension \<open>e\<close> that fails at validation.\<close>

definition failed_start :: runner where
  "failed_start = snd (run (init Map.empty) ''e'' ''/ext/e'' (spawn_env invalid_manifest 1 0 (Some 2)))"

text \<open>
  Extension \<open>e\<close> stopped and started again at time 10, now as subprocess 3 with error
  stream 4, before the exit of subprocess 1 is reported.
\<close>

definition restarted :: runner where
  "restarted = snd (run (stop started ''e'') ''e'' ''/ext/e'' (spawn_env valid_manifest 3 10 (Some 4)))"

text \<open>The text of the float 5.0, for the runs whose uptime is five seconds.\<close>

definition repr_example :: "real \<Rightarrow> string" where
  "repr_example t = ''5.0''"

section \<open>Facts about the string operations\<close>


lemma split_on_no_sep: "sep \<notin> set s \<Longrightarrow> split_on sep s = [s]"
  by (induction s) auto






lemma startswith_append: "startswith (x @ b) x"
  by (induction x) auto

lemma str_contains_append: "str_contains x (a @ x @ b)"
proof (induction a)
  case Nil
  then show ?case
    using startswith_append [of x b] by (cases "x @ b") auto
next
  case (Cons c a)
  then show ?case by simp
qed

lemma str_int_examples:
  "str_int 0 = ''0''" "str_int 1 = ''1''" "str_int 9 = ''9''" "str_int 11 = ''11''"
  "str_int 15 = ''15''"
  by (simp_all add: str_int_def digits_of.simps digit_chr_def)

section \<open>Facts about the state operations\<close>

lemma record_overwritten [simp]:
  "(r::ExtensionRecord)\<lparr>error_message := m, error_type := t\<rparr> = \<lparr>error_type = t, error_message = m\<rparr>"
  by (cases r) simp

lemma record_update_fields [simp]:
  "extension_procs (record_update s eid m t) = extension_procs s"
  "db_records (record_update s eid m t) = (db_records s)(eid \<mapsto> \<lparr>error_type = t, error_message = m\<rparr>)"
  "db_file (record_update s eid m t) = db_file s"
  "spawned (record_update s eid m t) = spawned s"
  "exit_waits (record_update s eid m t) = exit_waits s"
  "stderr_reads (record_update s eid m t) = stderr_reads s"
  "signals_sent (record_update s eid m t) = signals_sent s"
  "timers (record_update s eid m t) = timers s"
  "printed (record_update s eid m t) = printed s"
  by (simp_all add: record_update_def)

lemma set_error_fields [simp]:
  "extension_procs (set_extension_error s eid t m) = extension_procs s"
  "db_records (set_extension_error s eid t m) = (db_records s)(eid \<mapsto> \<lparr>error_type = t, error_message = m\<rparr>)"
  "db_file (set_extension_error s eid t m) = (db_records s)(eid \<mapsto> \<lparr>error_type = t, error_message = m\<rparr>)"
  "spawned (set_extension_error s eid t m) = spawned s"
  "exit_waits (set_extension_error s eid t m) = exit_waits s"
  "stderr_reads (set_extension_error s eid t m) = stderr_reads s"
  "signals_sent (set_extension_error s eid t m) = signals_sent s"
  "timers (set_extension_error s eid t m) = timers s"
  "printed (set_extension_error s eid t m) = printed s"
  by (simp_all add: set_extension_error_def db_save_def)

lemma pop_proc_fields [simp]:
  "extension_procs (pop_proc s eid) = (extension_procs s)(eid := None)"
  "db_records (pop_proc s eid) = db_records s"
  "db_file (pop_proc s eid) = db_file s"
  "spawned (pop_proc s eid) = spawned s"
  "exit_waits (pop_proc s eid) = exit_waits s"
  "stderr_reads (pop_proc s eid) = stderr_reads s"
  "signals_sent (pop_proc s eid) = signals_sent s"
  "timers (pop_proc s eid) = timers s"
  "printed (pop_proc s eid) = printed s"
  by (simp_all add: pop_proc_def)

lemma not_running_init: "\<not> is_running (init db) eid"
  by (simp add: is_running_def init_def)

text \<open>The exit callback past its two guards, for a process that a signal did not end.\<close>

lemma handle_exit_unsignaled:
  assumes "extension_procs s eid = Some proc" and "subprocess proc = obj_id sub"
    and "\<not> get_if_signaled sub"
  shows "handle_exit fmt s sub now eid =
    (if now - start_time proc < 1 then
       if str_contains ''ModuleNotFoundError'' (join [newline] (recent_errors proc)) then
         (case index1 (split_on squote (join [newline] (recent_errors proc))) of
            Inl e \<Rightarrow> (Some e, s)
          | Inr package_name \<Rightarrow>
              (None, pop_proc
                 (if package_name = ''ulauncher''
                  then set_extension_error s eid ''Incompatible'' (instantly_msg eid (get_exit_status sub))
                  else if package_name \<noteq> []
                  then set_extension_error s eid ''MissingModule'' package_name
                  else s) eid))
       else (None, pop_proc (set_extension_error s eid ''Terminated''
                               (instantly_msg eid (get_exit_status sub))) eid)
     else (None, pop_proc (set_extension_error s eid ''Exited''
                             (exited_msg fmt eid (get_exit_status sub) (now - start_time proc))) eid))"
  using assms by (simp add: handle_exit_def Let_def split: sum.splits)

text \<open>The exit callback for a process that a signal ended, while the id has a record.\<close>

lemma handle_exit_signaled:
  assumes "extension_procs s eid = Some proc" and "get_if_signaled sub"
  shows "handle_exit fmt s sub now eid =
    (None, pop_proc (set_extension_error s eid ''Terminated''
                       (terminated_msg eid (get_term_sig sub))) eid)"
  using assms by (simp add: handle_exit_def Let_def)

text \<open>The exit callback when the id has no record: nothing changes.\<close>

lemma handle_exit_no_record:
  assumes "extension_procs s eid = None"
  shows "handle_exit fmt s sub now eid = (None, s)"
  using assms by (simp add: handle_exit_def)

subsection \<open>The example states\<close>

lemma started_eq:
  "started = \<lparr>extension_procs = [''e'' \<mapsto> e_proc []],
     db_records = [''e'' \<mapsto> empty_record], db_file = Map.empty,
     spawned = [(1, [''/usr/bin/python3'', ''/ext/e/main.py''])],
     exit_waits = [(1, ''e'')], stderr_reads = [(2, ''e'')], signals_sent = [], timers = [],
     printed = []\<rparr>"
  by (simp add: started_def run_def init_def is_running_def spawn_env_def valid_manifest_def
      validate_and_check_def read_stderr_line_def e_proc_def empty_record_def)

lemma started_fields:
  "extension_procs started ''e'' = Some (e_proc [])"
  "db_records started = [''e'' \<mapsto> empty_record]"
  "db_file started = Map.empty"
  "stderr_reads started = [(2, ''e'')]"
  "signals_sent started = []"
  "timers started = []"
  by (simp_all add: started_eq)

lemma handle_stderr_started:
  assumes "line \<noteq> []"
  shows "extension_procs (handle_stderr started (Some line) ''e'') ''e'' = Some (e_proc [line])"
    and "db_records (handle_stderr started (Some line) ''e'') = [''e'' \<mapsto> empty_record]"
    and "db_file (handle_stderr started (Some line) ''e'') = Map.empty"
  using assms
  by (simp_all add: started_eq handle_stderr_def truthy_def deque_append_def
      read_stderr_line_def e_proc_def)

lemma e_proc_fields [simp]:
  "subprocess (e_proc errs) = 1" "start_time (e_proc errs) = 0" "recent_errors (e_proc errs) = errs"
  "error_stream (e_proc errs) = 2" "ext_id (e_proc errs) = ''e''"
  by (simp_all add: e_proc_def)

lemma exit_event_fields [simp]:
  "obj_id (exit_event h g sig code) = h" "get_if_signaled (exit_event h g sig code) = g"
  "get_term_sig (exit_event h g sig code) = sig" "get_exit_status (exit_event h g sig code) = code"
  by (simp_all add: exit_event_def)





section \<open>Starting an extension\<close>



text \<open>
  Claim C8. When \<^verbatim>\<open>run\<close> gets as far as the spawn (the extension is not running and
  the manifest passes) and the spawned process has no error stream, the call ends with
  an \<^verbatim>\<open>AssertionError\<close>. The process was spawned, but no process record is registered
  for the id, nothing is saved to the database file, and the record in memory is the
  one the reset at the start of the call left: empty type, empty message.
\<close>

theorem run_without_stderr_pipe:
  assumes "\<not> is_running s eid" and "validate_and_check (load env) = None"
    and "get_stderr_pipe env = None"
  shows "fst (run s eid path env) = Some (AssertionError stderr_pipe_msg)
    \<and> spawned (snd (run s eid path env))
        = spawned s @ [(spawnv env, [sys_executable env, path @ ''/main.py''])]
    \<and> extension_procs (snd (run s eid path env)) = extension_procs s
    \<and> \<not> is_running (snd (run s eid path env)) eid
    \<and> db_file (snd (run s eid path env)) = db_file s
    \<and> db_records (snd (run s eid path env)) = (db_records s)(eid \<mapsto> empty_record)"
  using assms by (simp add: run_def Let_def is_running_def empty_record_def)

theorem run_without_stderr_pipe_witness:
  "\<not> is_running (init Map.empty) ''e''
   \<and> validate_and_check (load (spawn_env valid_manifest 1 0 None)) = None
   \<and> get_stderr_pipe (spawn_env valid_manifest 1 0 None) = None
   \<and> fst (run (init Map.empty) ''e'' ''/ext/e'' (spawn_env valid_manifest 1 0 None))
       = Some (AssertionError stderr_pipe_msg)
   \<and> \<not> is_running (snd (run (init Map.empty) ''e'' ''/ext/e'' (spawn_env valid_manifest 1 0 None))) ''e''
   \<and> db_file (snd (run (init Map.empty) ''e'' ''/ext/e'' (spawn_env valid_manifest 1 0 None))) ''e'' = None"
proof -
  have h1: "\<not> is_running (init Map.empty) ''e''"
    by (rule not_running_init)
  have h2: "validate_and_check (load (spawn_env valid_manifest 1 0 None)) = None"
    by (simp add: validate_and_check_def spawn_env_def valid_manifest_def)
  have h3: "get_stderr_pipe (spawn_env valid_manifest 1 0 None) = None"
    by (simp add: spawn_env_def)
  have h4: "db_file (init Map.empty) ''e'' = None"
    by (simp add: init_def)
  show ?thesis
    using h1 h2 h3 h4 run_without_stderr_pipe [OF h1 h2 h3, of "''/ext/e''"]
    by simp
qed

text \<open>
  Claim C1. The claim asks that after \<^verbatim>\<open>run\<close> returns exactly one of two things holds:
  a process record is registered for the id, or the saved record of the id has an error
  type; and that the reset at the start of \<^verbatim>\<open>run\<close> is saved. The reset is an
  \<^verbatim>\<open>update\<close> of the record in memory with no \<^verbatim>\<open>save()\<close> after it, unlike
  \<^verbatim>\<open>set_extension_error\<close>, which saves. So when a start that failed at validation is
  followed by a start that succeeds, the second call returns with the process registered
  while the database file still holds \<open>Invalid\<close>; only the record in memory is empty.
\<close>

theorem run_reset_not_saved:
  "db_file failed_start ''e''
     = Some \<lparr>error_type = ''Invalid'', error_message = ''name is not provided''\<rparr>
   \<and> \<not> is_running failed_start ''e''
   \<and> fst (run failed_start ''e'' ''/ext/e'' (spawn_env valid_manifest 1 0 (Some 2))) = None
   \<and> is_running (snd (run failed_start ''e'' ''/ext/e'' (spawn_env valid_manifest 1 0 (Some 2)))) ''e''
   \<and> db_file (snd (run failed_start ''e'' ''/ext/e'' (spawn_env valid_manifest 1 0 (Some 2)))) ''e''
       = Some \<lparr>error_type = ''Invalid'', error_message = ''name is not provided''\<rparr>
   \<and> db_records (snd (run failed_start ''e'' ''/ext/e'' (spawn_env valid_manifest 1 0 (Some 2)))) ''e''
       = Some empty_record"
proof -
  have f: "failed_start = \<lparr>extension_procs = Map.empty,
      db_records = [''e'' \<mapsto> \<lparr>error_type = ''Invalid'', error_message = ''name is not provided''\<rparr>],
      db_file = [''e'' \<mapsto> \<lparr>error_type = ''Invalid'', error_message = ''name is not provided''\<rparr>],
      spawned = [], exit_waits = [], stderr_reads = [], signals_sent = [], timers = [],
      printed = []\<rparr>"
    by (simp add: failed_start_def run_def init_def is_running_def spawn_env_def
        invalid_manifest_def validate_and_check_def set_extension_error_def db_save_def
        record_update_def)
  show ?thesis
    unfolding f
    by (simp add: run_def is_running_def spawn_env_def valid_manifest_def
        validate_and_check_def read_stderr_line_def empty_record_def)
qed

text \<open>
  What \<^verbatim>\<open>run\<close> does keep, on the records in memory: in a state where the id, if it
  is running, has no error type in memory, a call that returns leaves the id registered
  exactly when its record in memory has no error type. The fresh runner is such a state
  for every id, and every operation of the runner leads from such a state to such a
  state (the lemmas on \<open>memory_clean\<close> below).
\<close>

lemma run_memory_record:
  assumes "is_running s eid \<longrightarrow> error_type (get_record s eid) = []"
    and "fst (run s eid path env) = None"
  shows "is_running (snd (run s eid path env)) eid
     = (error_type (get_record (snd (run s eid path env)) eid) = [])"
proof (cases "is_running s eid")
  case True
  with assms show ?thesis by (simp add: run_def)
next
  case False
  show ?thesis
  proof (cases "validate_and_check (load env)")
    case None
    with False assms(2) show ?thesis
      by (auto simp: run_def Let_def is_running_def get_record_def read_stderr_line_def
          split: option.splits)
  next
    case (Some e)
    with False show ?thesis
      by (cases e) (simp_all add: run_def is_running_def get_record_def)
  qed
qed

subsection \<open>The records in memory of running extensions\<close>

lemma memory_clean_init: "memory_clean (init db)"
  by (simp add: memory_clean_def not_running_init)

lemma memory_clean_run:
  assumes "memory_clean s"
  shows "memory_clean (snd (run s eid path env))"
proof (cases "is_running s eid")
  case True
  with assms show ?thesis by (simp add: run_def)
next
  case False
  show ?thesis
  proof (cases "validate_and_check (load env)")
    case None
    with False assms show ?thesis
      by (auto simp: memory_clean_def run_def Let_def is_running_def get_record_def
          read_stderr_line_def split: option.splits)
  next
    case (Some e)
    with False assms show ?thesis
      by (cases e) (auto simp: memory_clean_def run_def is_running_def get_record_def)
  qed
qed

lemma memory_clean_stop:
  assumes "memory_clean s"
  shows "memory_clean (stop s eid)"
  using assms
  by (auto simp: memory_clean_def stop_def is_running_def get_record_def timer_def
      send_signal_def Let_def split: option.splits if_splits)

lemma memory_clean_handle_stderr:
  assumes "memory_clean s"
  shows "memory_clean (handle_stderr s output eid)"
  using assms
  by (auto simp: memory_clean_def handle_stderr_def is_running_def get_record_def
      read_stderr_line_def Let_def split: option.splits if_splits)

lemma memory_clean_pop_error:
  assumes "memory_clean s"
  shows "memory_clean (pop_proc (set_extension_error s eid t m) eid)"
  using assms
  by (auto simp: memory_clean_def is_running_def get_record_def split: if_splits)

lemma memory_clean_pop:
  assumes "memory_clean s"
  shows "memory_clean (pop_proc s eid)"
  using assms
  by (auto simp: memory_clean_def is_running_def get_record_def split: if_splits)

lemma memory_clean_handle_exit:
  assumes "memory_clean s"
  shows "memory_clean (snd (handle_exit fmt s sub now eid))"
  using assms
  by (simp add: handle_exit_def Let_def memory_clean_pop_error memory_clean_pop
      split: option.splits sum.splits)

lemma memory_clean_timer_fires:
  assumes "memory_clean s"
  shows "memory_clean (timer_fires s i identifier)"
  using assms
  by (auto simp: memory_clean_def timer_fires_def confirm_termination_def send_signal_def
      is_running_def get_record_def)

section \<open>Stopping an extension\<close>

text \<open>
  Claim C7. For a running extension, \<^verbatim>\<open>is_running\<close> is false as soon as \<^verbatim>\<open>stop\<close>
  has returned. The record leaves the table first: \<^verbatim>\<open>stop\<close> is the removal of the
  record, then the sending of \<open>SIGTERM\<close> in a state that no longer has the record, then
  the setting of the timer; nothing in it waits for the process to end.
\<close>

theorem stop_removes_record_first:
  assumes "is_running s eid"
  shows "\<not> is_running (stop s eid) eid
    \<and> \<not> is_running (pop_proc s eid) eid
    \<and> (\<exists>proc. extension_procs s eid = Some proc
         \<and> stop s eid = timer (send_signal (pop_proc s eid) (subprocess proc) SIGTERM) (1 / 2) proc)"
  using assms by (auto simp: stop_def is_running_def timer_def send_signal_def Let_def)

theorem stop_removes_record_first_witness:
  "is_running started ''e'' \<and> \<not> is_running (stop started ''e'') ''e''"
proof -
  have h: "is_running started ''e''"
    by (simp add: is_running_def dom_def started_fields)
  show ?thesis
    using h stop_removes_record_first [OF h] by simp
qed

text \<open>
  Claim C5. \<^verbatim>\<open>stop\<close> on a running extension sends \<open>SIGTERM\<close> and sets one timer of
  half a second for the liveness check of the stopped process. When that timer fires and
  the process still has an identifier, one \<open>SIGKILL\<close> is sent to it and nothing else;
  when the process has ended meanwhile, no signal is sent. In both cases the check is
  no longer pending afterwards and the database is as it was before \<^verbatim>\<open>stop\<close>; the
  check has no way to raise.
\<close>

theorem stop_escalation:
  assumes "extension_procs s eid = Some proc"
  shows "timers (stop s eid) = timers s @ [(1 / 2, proc)]
    \<and> signals_sent (stop s eid) = signals_sent s @ [(subprocess proc, SIGTERM)]
    \<and> signals_sent (timer_fires (stop s eid) (length (timers s)) identifier) =
        signals_sent (stop s eid) @ (if truthy identifier then [(subprocess proc, SIGKILL)] else [])
    \<and> timers (timer_fires (stop s eid) (length (timers s)) identifier) = timers s
    \<and> db_records (timer_fires (stop s eid) (length (timers s)) identifier) = db_records s
    \<and> db_file (timer_fires (stop s eid) (length (timers s)) identifier) = db_file s"
  using assms
  by (simp add: stop_def is_running_def dom_def timer_def send_signal_def timer_fires_def
      confirm_termination_def Let_def)

theorem stop_escalation_witness:
  "extension_procs started ''e'' = Some (e_proc [])
   \<and> timers (stop started ''e'') = [(1 / 2, e_proc [])]
   \<and> signals_sent (timer_fires (stop started ''e'') 0 (Some ''4242'')) = [(1, SIGTERM), (1, SIGKILL)]
   \<and> signals_sent (timer_fires (stop started ''e'') 0 None) = [(1, SIGTERM)]
   \<and> timers (timer_fires (stop started ''e'') 0 (Some ''4242'')) = []"
proof -
  have h: "extension_procs started ''e'' = Some (e_proc [])"
    by (simp add: started_fields)
  show ?thesis
    using h stop_escalation [OF h, of "Some ''4242''"] stop_escalation [OF h, of None]
    by (simp add: started_fields truthy_def)
qed

section \<open>The error stream listener\<close>

text \<open>
  Claim C6, amended. The claim has the listener stop at the end of the stream even while
  the process record is present. The callback has no test for the end of the stream:
  after every completed read, with or without a line, it issues the next read on the
  record's stream as long as the id has a record, and issues none only when the record
  is gone.
\<close>

theorem handle_stderr_rearms:
  "stderr_reads (handle_stderr s output eid) =
     stderr_reads s @ (case extension_procs s eid of
                         None \<Rightarrow> []
                       | Some proc \<Rightarrow> [(error_stream proc, ext_id proc)])"
  by (simp add: handle_stderr_def read_stderr_line_def Let_def truthy_def
      split: option.splits)

text \<open>
  The claim as stated fails: extension \<open>e\<close> is running with one read pending, the read
  completes with no line because the stream has ended, and a second read is issued.
\<close>

theorem stderr_eof_counterexample:
  "extension_procs started ''e'' = Some (e_proc [])
   \<and> stderr_reads started = [(2, ''e'')]
   \<and> stderr_reads (handle_stderr started None ''e'') = [(2, ''e''), (2, ''e'')]"
  by (simp add: started_eq handle_stderr_def read_stderr_line_def)

section \<open>The exit listener\<close>

subsection \<open>Facts about the example runs\<close>


lemma restarted_fields:
  "extension_procs restarted ''e''
     = Some \<lparr>ext_id = ''e'', subprocess = 3, start_time = 10, error_stream = 4, recent_errors = []\<rparr>"
  "db_file restarted = Map.empty"
  "signals_sent restarted = [(1, SIGTERM)]"
  by (simp_all add: restarted_def started_eq stop_def is_running_def pop_proc_def send_signal_def
      timer_def run_def spawn_env_def valid_manifest_def validate_and_check_def
      read_stderr_line_def)

lemma stop_keeps_db: "db_records (stop s eid) = db_records s \<and> db_file (stop s eid) = db_file s"
  by (simp add: stop_def timer_def send_signal_def Let_def split: option.splits)

text \<open>
  The exit of a stopped process, reported in the state that \<^verbatim>\<open>stop\<close> left, changes
  nothing.
\<close>

lemma stop_then_exit:
  "handle_exit fmt (stop s eid) sub now eid = (None, stop s eid)"
proof -
  have "extension_procs (stop s eid) eid = None"
    by (simp add: stop_def is_running_def dom_def timer_def send_signal_def Let_def
        split: option.splits)
  then show ?thesis
    by (rule handle_exit_no_record)
qed

subsection \<open>Exits within a second\<close>




text \<open>
  Claim C9. An exit that no signal caused, less than a second after the start, of the
  process that the record of the id holds, with a retained line that has
  \<open>ModuleNotFoundError\<close> in it and no single quote: the split of the line has one
  piece, its element 1 does not exist, and the callback ends with \<^verbatim>\<open>IndexError\<close>. The
  state is the one the callback found: nothing is written to the database and the
  record is still in the table.
\<close>

theorem handle_exit_index_error:
  assumes "extension_procs s eid = Some proc" and "subprocess proc = obj_id sub"
    and "\<not> get_if_signaled sub" and "now - start_time proc < 1"
    and "str_contains ''ModuleNotFoundError'' (join [newline] (recent_errors proc))"
    and "squote \<notin> set (join [newline] (recent_errors proc))"
  shows "handle_exit fmt s sub now eid = (Some IndexError, s)
    \<and> length (split_on squote (join [newline] (recent_errors proc))) = 1
    \<and> is_running s eid"
  using assms
  by (simp add: handle_exit_unsignaled split_on_no_sep index1_def is_running_def dom_def)

theorem handle_exit_index_error_witness:
  "is_running (handle_stderr started (Some unquoted_line) ''e'') ''e''
   \<and> handle_exit repr_example (handle_stderr started (Some unquoted_line) ''e'')
       (exit_event 1 False 0 1) (1 / 5) ''e''
     = (Some IndexError, handle_stderr started (Some unquoted_line) ''e'')
   \<and> db_file (handle_stderr started (Some unquoted_line) ''e'') = Map.empty"
proof -
  let ?s = "handle_stderr started (Some unquoted_line) ''e''"
  let ?sub = "exit_event 1 False 0 1"
  have n: "unquoted_line \<noteq> []"
    by (simp add: unquoted_line_def)
  have h1: "extension_procs ?s ''e'' = Some (e_proc [unquoted_line])"
    by (simp add: handle_stderr_started n)
  have h2: "subprocess (e_proc [unquoted_line]) = obj_id ?sub"
    by simp
  have h3: "\<not> get_if_signaled ?sub"
    by simp
  have h4: "1 / 5 - start_time (e_proc [unquoted_line]) < 1"
    by simp
  have h5: "str_contains ''ModuleNotFoundError'' (join [newline] (recent_errors (e_proc [unquoted_line])))"
    by (simp add: unquoted_line_def)
  have h6: "squote \<notin> set (join [newline] (recent_errors (e_proc [unquoted_line])))"
    by (simp add: unquoted_line_def squote_def)
  show ?thesis
    using handle_exit_index_error [OF h1 h2 h3 h4 h5 h6, of repr_example]
    by (simp add: handle_stderr_started n)
qed

subsection \<open>Exits after a second or more\<close>

text \<open>
  Claim C4, amended. For an exit that no signal caused, a second or more after the
  start, of the process that the record of the id holds, the saved error is \<open>Exited\<close>;
  its message has the exit code and the uptime in it, and the record leaves the table.
\<close>

theorem handle_exit_exited:
  assumes "extension_procs s eid = Some proc" and "subprocess proc = obj_id sub"
    and "\<not> get_if_signaled sub" and "1 \<le> now - start_time proc"
  shows "fst (handle_exit fmt s sub now eid) = None
    \<and> \<not> is_running (snd (handle_exit fmt s sub now eid)) eid
    \<and> db_file (snd (handle_exit fmt s sub now eid)) eid =
        Some \<lparr>error_type = ''Exited'',
              error_message = exited_msg fmt eid (get_exit_status sub) (now - start_time proc)\<rparr>
    \<and> db_records (snd (handle_exit fmt s sub now eid)) = db_file (snd (handle_exit fmt s sub now eid))
    \<and> str_contains (str_int (get_exit_status sub))
         (exited_msg fmt eid (get_exit_status sub) (now - start_time proc))
    \<and> str_contains (fmt (now - start_time proc))
         (exited_msg fmt eid (get_exit_status sub) (now - start_time proc))"
proof -
  have a: "str_contains (str_int c) (exited_msg fmt eid c u)" for c u
    unfolding exited_msg_def
    using str_contains_append [of "str_int c"
        "''Extension '' @ [dquote] @ eid @ [dquote] @ '' exited with code ''"
        "'' after '' @ fmt u @ '' seconds.''"]
    by simp
  have b: "str_contains (fmt u) (exited_msg fmt eid c u)" for c u
    unfolding exited_msg_def
    using str_contains_append [of "fmt u"
        "''Extension '' @ [dquote] @ eid @ [dquote] @ '' exited with code '' @ str_int c @ '' after ''"
        "'' seconds.''"]
    by simp
  from assms show ?thesis
    by (simp add: handle_exit_unsignaled is_running_def a b)
qed

text \<open>The example of the claim: exit code 0, five seconds after the start.\<close>

theorem handle_exit_exited_witness:
  "extension_procs started ''e'' = Some (e_proc [])
   \<and> (1::real) \<le> 5 - start_time (e_proc [])
   \<and> db_file (snd (handle_exit repr_example started (exit_event 1 False 0 0) 5 ''e'')) ''e''
       = Some \<lparr>error_type = ''Exited'',
               error_message = ''Extension '' @ [dquote] @ ''e'' @ [dquote]
                 @ '' exited with code 0 after 5.0 seconds.''\<rparr>
   \<and> \<not> is_running (snd (handle_exit repr_example started (exit_event 1 False 0 0) 5 ''e'')) ''e''"
proof -
  let ?sub = "exit_event 1 False 0 0"
  have h1: "extension_procs started ''e'' = Some (e_proc [])"
    by (simp add: started_fields)
  have h2: "subprocess (e_proc []) = obj_id ?sub"
    by simp
  have h3: "\<not> get_if_signaled ?sub"
    by simp
  have h4: "(1::real) \<le> 5 - start_time (e_proc [])"
    by simp
  show ?thesis
    using h1 h4 handle_exit_exited [OF h1 h2 h3 h4, of repr_example]
    by (simp add: exited_msg_def repr_example_def str_int_examples)
qed

text \<open>
  The claim as stated fails for an exit that a signal caused: extension \<open>e\<close> is killed
  with signal 9 five seconds after its start, its record present and matching, and the
  saved error is \<open>Terminated\<close> with the signal message.
\<close>

theorem exited_counterexample:
  "extension_procs started ''e'' = Some (e_proc [])
   \<and> subprocess (e_proc []) = obj_id (exit_event 1 True 9 0)
   \<and> (1::real) \<le> 5 - start_time (e_proc [])
   \<and> db_file (snd (handle_exit repr_example started (exit_event 1 True 9 0) 5 ''e'')) ''e''
       = Some \<lparr>error_type = ''Terminated'',
               error_message = ''Extension '' @ [dquote] @ ''e'' @ [dquote]
                 @ '' was terminated with signal 9''\<rparr>"
proof -
  have h1: "extension_procs started ''e'' = Some (e_proc [])"
    by (simp add: started_fields)
  then show ?thesis
    by (simp add: handle_exit_signaled terminated_msg_def str_int_examples)
qed

subsection \<open>The exit of a stopped process\<close>

text \<open>
  Claim C10. The claim asks that stopping a running extension never leads to an error
  being written when the exit of the stopped process is reported. That holds while the
  id has no record (\<open>stop_then_exit\<close>, \<open>stop_keeps_db\<close>). The branch for an exit by
  signal, however, tests only that the id has some record, not that the record is the
  one of the exiting process, as the branch after it does. Extension \<open>e\<close> is stopped
  and started again, and then the exit of the stopped process is reported, caused by
  the \<open>SIGTERM\<close> that \<^verbatim>\<open>stop\<close> sent: \<open>Terminated\<close> is saved for \<open>e\<close>, where nothing
  was saved before, and the record of the new process leaves the table.
\<close>

theorem stop_restart_exit_writes_error:
  "db_file started ''e'' = None
   \<and> signals_sent (stop started ''e'') = [(1, SIGTERM)]
   \<and> map_option subprocess (extension_procs restarted ''e'') = Some 3
   \<and> db_file restarted ''e'' = None
   \<and> fst (handle_exit repr_example restarted (exit_event 1 True 15 0) 11 ''e'') = None
   \<and> db_file (snd (handle_exit repr_example restarted (exit_event 1 True 15 0) 11 ''e'')) ''e''
       = Some \<lparr>error_type = ''Terminated'',
               error_message = ''Extension '' @ [dquote] @ ''e'' @ [dquote]
                 @ '' was terminated with signal 15''\<rparr>
   \<and> \<not> is_running (snd (handle_exit repr_example restarted (exit_event 1 True 15 0) 11 ''e'')) ''e''"
proof -
  have s: "signals_sent (stop started ''e'') = [(1, SIGTERM)]"
    by (simp add: started_eq stop_def is_running_def send_signal_def timer_def pop_proc_def)
  show ?thesis
    using s
    by (simp add: started_fields restarted_fields handle_exit_signaled terminated_msg_def
        str_int_examples is_running_def)
qed

end

